theory Spec2Isabelle
  imports Main "HOL-Library.Char_ord" "HOL-Library.List_Lexorder"
begin

section \<open>JSON values and the decoding of Go structs\<close>

text \<open>
  The services exchange JSON. A JSON text is modelled by its value tree; an object keeps
  its members in the order of the text, duplicates included. Numbers are integer literals,
  the only numbers the services themselves write.
\<close>

datatype json =
    JNull
  | JBool bool
  | JNum int
  | JStr string
  | JArr "json list"
  | JObj "(string \<times> json) list"

text \<open>
  encoding/json matches an object key with a struct field without regard to case. All field
  names of this program are ASCII, so a key matches when its letters, lowered, spell the
  name; the two non-ASCII letters that fold to ASCII ones (U+017F to s, U+212A to k) are
  folded as well.
\<close>

definition ascii_lower :: "char \<Rightarrow> char" where
  "ascii_lower c =
     (case map_of (zip ''ABCDEFGHIJKLMNOPQRSTUVWXYZ'' ''abcdefghijklmnopqrstuvwxyz'') c of
        None \<Rightarrow> c
      | Some l \<Rightarrow> l)"

fun fold_key :: "string \<Rightarrow> string" where
  "fold_key [] = []"
| "fold_key [c] = [ascii_lower c]"
| "fold_key [c, d] =
     (if c = CHR 0xC5 \<and> d = CHR 0xBF then ''s''
      else ascii_lower c # fold_key [d])"
| "fold_key (c # d # e # r) =
     (if c = CHR 0xC5 \<and> d = CHR 0xBF then CHR ''s'' # fold_key (e # r)
      else if c = CHR 0xE2 \<and> d = CHR 0x84 \<and> e = CHR 0xAA then CHR ''k'' # fold_key r
      else ascii_lower c # fold_key (d # e # r))"

text \<open>
  Decoding a JSON value into a field: \<open>null\<close> leaves the field as it is, a value of the
  wrong type leaves it as it is and reports an error. The result pairs the field's new
  value with the error flag.
\<close>

fun int_field :: "(int \<Rightarrow> int option) \<Rightarrow> json \<Rightarrow> int \<Rightarrow> int \<times> bool" where
  "int_field conv JNull old = (old, False)"
| "int_field conv (JNum n) old = (case conv n of Some i \<Rightarrow> (i, False) | None \<Rightarrow> (old, True))"
| "int_field conv v old = (old, True)"

fun string_field :: "json \<Rightarrow> string \<Rightarrow> string \<times> bool" where
  "string_field JNull old = (old, False)"
| "string_field (JStr s) old = (s, False)"
| "string_field v old = (old, True)"

fun time_field :: "(string \<Rightarrow> 't option) \<Rightarrow> json \<Rightarrow> 't \<Rightarrow> 't \<times> bool" where
  "time_field parse JNull old = (old, False)"
| "time_field parse (JStr s) old = (case parse s of Some t \<Rightarrow> (t, False) | None \<Rightarrow> (old, True))"
| "time_field parse v old = (old, True)"

text \<open>
  A number literal decoded straight into an \<open>int64\<close> (or \<open>int\<close>) field must lie in the
  64-bit range.
\<close>

definition int64_lit :: "int \<Rightarrow> int option" where
  "int64_lit n = (if - (2 ^ 63) \<le> n \<and> n < 2 ^ 63 then Some n else None)"

text \<open>
  A number that was first decoded into an \<open>interface{}\<close> is a float64. Marshalled again
  and decoded into an integer field it is itself up to magnitude \<open>2 ^ 53\<close>; what the float
  formatting yields beyond that is the parameter \<open>big\<close>.
\<close>

definition via_float64 :: "(int \<Rightarrow> int option) \<Rightarrow> int \<Rightarrow> int option" where
  "via_float64 big n = (if \<bar>n\<bar> \<le> 2 ^ 53 then Some n else big n)"

text \<open>
  A JSON object decoded into a Go map keeps the last value of a repeated key, and
  \<open>json.Marshal\<close> writes a map with its keys sorted.
\<close>

fun map_put :: "string \<Rightarrow> json \<Rightarrow> (string \<times> json) list \<Rightarrow> (string \<times> json) list" where
  "map_put k v [] = [(k, v)]"
| "map_put k v ((k', v') # r) =
     (if k = k' then (k, v) # r
      else if k < k' then (k, v) # (k', v') # r
      else (k', v') # map_put k v r)"

definition go_map :: "(string \<times> json) list \<Rightarrow> (string \<times> json) list" where
  "go_map ms = foldl (\<lambda>m kv. map_put (fst kv) (snd kv) m) [] ms"


section \<open>The booking service: data\<close>

text \<open>The struct \<open>Booking\<close>; \<open>'t\<close> stands for \<open>time.Time\<close>.\<close>

record 't Booking =
  ID :: int
  RestaurantID :: int
  User :: string
  People :: int
  When :: 't

text \<open>
  What a time goes through outside the sources: the parsing and the formatting of the
  JSON coding of \<open>When\<close> (package time), the zero \<open>time.Time\<close>, and \<open>stored_time\<close>, the
  time that column \<open>when_ts\<close> gives back for a time written to it (the driver writes and
  reads it in UTC, and the column keeps whole seconds).
\<close>

record 't timelib =
  parse_time :: "string \<Rightarrow> 't option"
  fmt_time :: "'t \<Rightarrow> string"
  zero_time :: 't
  stored_time :: "'t \<Rightarrow> 't"

definition zero_Booking :: "'t timelib \<Rightarrow> 't Booking" where
  "zero_Booking L = \<lparr>ID = 0, RestaurantID = 0, User = [], People = 0, When = zero_time L\<rparr>"

text \<open>
  \<open>json.NewDecoder(r.Body).Decode(&b)\<close>: the members of the object are taken in order, each
  into the field its key names; unknown keys are skipped; the first type error is
  remembered and returned at the end.
\<close>

definition booking_member :: "'t timelib \<Rightarrow> 't Booking \<times> bool \<Rightarrow> string \<times> json \<Rightarrow> 't Booking \<times> bool" where
  "booking_member L acc kv =
     (let b = fst acc; e = snd acc; k = fold_key (fst kv); v = snd kv in
      if k = ''id'' then
        (let r = int_field int64_lit v (ID b) in (b\<lparr>ID := fst r\<rparr>, e \<or> snd r))
      else if k = ''restaurant_id'' then
        (let r = int_field int64_lit v (RestaurantID b) in (b\<lparr>RestaurantID := fst r\<rparr>, e \<or> snd r))
      else if k = ''user'' then
        (let r = string_field v (User b) in (b\<lparr>User := fst r\<rparr>, e \<or> snd r))
      else if k = ''people'' then
        (let r = int_field int64_lit v (People b) in (b\<lparr>People := fst r\<rparr>, e \<or> snd r))
      else if k = ''when'' then
        (let r = time_field (parse_time L) v (When b) in (b\<lparr>When := fst r\<rparr>, e \<or> snd r))
      else (b, e))"

text \<open>
  The request body is \<open>None\<close> when it is not a JSON text. \<open>null\<close> decodes without error
  and leaves the zero struct; a value that is neither \<open>null\<close> nor an object is an error.
\<close>

fun decode_Booking :: "'t timelib \<Rightarrow> json option \<Rightarrow> 't Booking option" where
  "decode_Booking L None = None"
| "decode_Booking L (Some JNull) = Some (zero_Booking L)"
| "decode_Booking L (Some (JObj ms)) =
     (let r = foldl (booking_member L) (zero_Booking L, False) ms in
      if snd r then None else Some (fst r))"
| "decode_Booking L (Some v) = None"

text \<open>\<open>json.NewEncoder(w).Encode(b)\<close>, by the struct's tags.\<close>

definition encode_Booking :: "'t timelib \<Rightarrow> 't Booking \<Rightarrow> json" where
  "encode_Booking L b =
     JObj [(''id'', JNum (ID b)), (''restaurant_id'', JNum (RestaurantID b)),
           (''user'', JStr (User b)), (''people'', JNum (People b)),
           (''when'', JStr (fmt_time L (When b)))]"

text \<open>
  A Go slice is \<open>None\<close> when nil, which encodes as \<open>null\<close>, and otherwise a list, which
  encodes as an array.
\<close>

fun encode_Bookings :: "'t timelib \<Rightarrow> 't Booking list option \<Rightarrow> json" where
  "encode_Bookings L None = JNull"
| "encode_Bookings L (Some bs) = JArr (map (encode_Booking L) bs)"


section \<open>The store\<close>

text \<open>
  A row of table \<open>bookings\<close>, in the columns the service selects. The key \<open>id\<close> is never
  NULL; any other column may hold NULL (\<open>None\<close>) in a row the service did not write.
\<close>

record 't booking_row =
  row_id :: int
  row_restaurant_id :: "int option"
  row_user :: "string option"
  row_people :: "int option"
  row_when_ts :: "'t option"

record 't cache_row =
  name :: string
  city :: string
  seats :: int
  last_seen :: 't

text \<open>
  The two tables of the booking service. \<open>bookings\<close> is in the order the store returns
  its rows, with the counter of its AUTO_INCREMENT key; \<open>restaurants_cache\<close> is keyed
  by \<open>id\<close>.
\<close>

record 't store =
  bookings :: "'t booking_row list"
  next_id :: int
  restaurants_cache :: "int \<rightharpoonup> 't cache_row"

text \<open>The counter is ahead of every key in use.\<close>

definition fresh_ids :: "'t store \<Rightarrow> bool" where
  "fresh_ids st = list_all (\<lambda>r. row_id r < next_id st) (bookings st)"

text \<open>
  \<open>INSERT INTO bookings (restaurant_id, user, people, when_ts) VALUES (?, ?, ?, ?)\<close>: the
  store gives the row the next key. It holds the restaurant id, the user and the party
  size as given (a value that does not fit its column makes the store refuse the
  statement), and the time as \<open>stored_time\<close> renders it.
\<close>

definition insert_booking :: "'t timelib \<Rightarrow> 't Booking \<Rightarrow> 't store \<Rightarrow> 't store" where
  "insert_booking L b st =
     st\<lparr>bookings := bookings st @
          [\<lparr>row_id = next_id st, row_restaurant_id = Some (RestaurantID b),
            row_user = Some (User b), row_people = Some (People b),
            row_when_ts = Some (stored_time L (When b))\<rparr>],
        next_id := next_id st + 1\<rparr>"

text \<open>
  \<open>Scan(&b.ID, &b.RestaurantID, &b.User, &b.People, &when)\<close> fails on a NULL column.
\<close>

definition scan_row :: "'t booking_row \<Rightarrow> 't Booking option" where
  "scan_row r =
     (case (row_restaurant_id r, row_user r, row_people r, row_when_ts r) of
        (Some rid, Some u, Some p, Some w) \<Rightarrow>
          Some \<lparr>ID = row_id r, RestaurantID = rid, User = u, People = p, When = w\<rparr>
      | _ \<Rightarrow> None)"


section \<open>Responses\<close>

datatype payload = Text string | Json json | NoBody

record response =
  status :: nat
  body :: payload

text \<open>\<open>http.Error(w, msg, code)\<close> writes the message and a newline.\<close>

definition http_Error :: "string \<Rightarrow> nat \<Rightarrow> response" where
  "http_Error msg code = \<lparr>status = code, body = Text (msg @ [CHR 0x0A])\<rparr>"

definition http_NotFound :: response where
  "http_NotFound = http_Error ''404 page not found'' 404"


section \<open>The notification publisher\<close>

text \<open>How far the transport lets \<open>publishRabbitNotification\<close> get.\<close>

datatype transport = DialFails | ChannelFails | QueueDeclareFails | PublishFails | Delivers

text \<open>
  The function leaves either a log line (\<open>Inl\<close>, the text before the error) or a message
  on queue \<open>email_notifications\<close> (\<open>Inr\<close>). It returns nothing.
\<close>

fun publishRabbitNotification :: "'t timelib \<Rightarrow> transport \<Rightarrow> 't Booking \<Rightarrow> string + json" where
  "publishRabbitNotification L DialFails b = Inl ''rabbit dial in publish: ''"
| "publishRabbitNotification L ChannelFails b = Inl ''rabbit channel: ''"
| "publishRabbitNotification L QueueDeclareFails b = Inl ''queue declare: ''"
| "publishRabbitNotification L PublishFails b = Inl ''rabbit publish err: ''"
| "publishRabbitNotification L Delivers b =
     Inr (JObj (go_map [(''type'', JStr ''booking.created''), (''data'', encode_Booking L b)]))"


section \<open>The Booking API\<close>

text \<open>
  What a handler leaves behind: the response, the store, and the effect of the goroutine
  it started, if it started one.
\<close>

record 't handled =
  reply :: response
  after :: "'t store"
  spawned :: "(string + json) option"

text \<open>
  \<open>createBooking\<close>. \<open>db_ok\<close> tells whether the store accepts the statement; \<open>tr\<close> is
  the transport the goroutine meets.
\<close>

definition createBooking ::
  "'t timelib \<Rightarrow> bool \<Rightarrow> transport \<Rightarrow> 't store \<Rightarrow> json option \<Rightarrow> 't handled" where
  "createBooking L db_ok tr st req_body =
     (case decode_Booking L req_body of
        None \<Rightarrow> \<lparr>reply = http_Error ''bad request'' 400, after = st, spawned = None\<rparr>
      | Some b \<Rightarrow>
          if \<not> db_ok
          then \<lparr>reply = http_Error ''db error'' 500, after = st, spawned = None\<rparr>
          else \<lparr>reply = \<lparr>status = 201, body = Json (encode_Booking L b)\<rparr>,
                after = insert_booking L b st,
                spawned = Some (publishRabbitNotification L tr b)\<rparr>)"

text \<open>
  \<open>getBooking\<close>. The path variable is taken as the number the store compares the key
  with. Any error of the query or of \<open>Scan\<close> answers 404.
\<close>

definition getBooking :: "'t timelib \<Rightarrow> bool \<Rightarrow> 't store \<Rightarrow> int \<Rightarrow> 't handled" where
  "getBooking L db_ok st i =
     (if \<not> db_ok then \<lparr>reply = http_NotFound, after = st, spawned = None\<rparr>
      else case find (\<lambda>r. row_id r = i) (bookings st) of
        None \<Rightarrow> \<lparr>reply = http_NotFound, after = st, spawned = None\<rparr>
      | Some r \<Rightarrow>
          (case scan_row r of
             None \<Rightarrow> \<lparr>reply = http_NotFound, after = st, spawned = None\<rparr>
           | Some b \<Rightarrow> \<lparr>reply = \<lparr>status = 200, body = Json (encode_Booking L b)\<rparr>,
                        after = st, spawned = None\<rparr>))"

text \<open>
  \<open>listBookings\<close>: \<open>out\<close> starts as the empty, non-nil slice; a row that does not scan is
  skipped.
\<close>

fun scan_rows :: "'t booking_row list \<Rightarrow> 't Booking list \<Rightarrow> 't Booking list" where
  "scan_rows [] out = out"
| "scan_rows (r # rs) out =
     (case scan_row r of
        None \<Rightarrow> scan_rows rs out
      | Some b \<Rightarrow> scan_rows rs (out @ [b]))"

definition listBookings :: "'t timelib \<Rightarrow> bool \<Rightarrow> 't store \<Rightarrow> 't handled" where
  "listBookings L db_ok st =
     (if \<not> db_ok then \<lparr>reply = http_Error ''db error'' 500, after = st, spawned = None\<rparr>
      else \<lparr>reply = \<lparr>status = 200, body = Json (encode_Bookings L (Some (scan_rows (bookings st) [])))\<rparr>,
            after = st, spawned = None\<rparr>)"


section \<open>The credential check\<close>

text \<open>\<open>getenv(k, d)\<close>: the variable's value, or \<open>d\<close> when it is unset or empty.\<close>

definition getenv :: "(string \<rightharpoonup> string) \<Rightarrow> string \<Rightarrow> string \<Rightarrow> string" where
  "getenv environ k d = (case environ k of None \<Rightarrow> d | Some v \<Rightarrow> if v = [] then d else v)"

text \<open>
  A time-valued claim of a token: absent, an instant, or a value that is not a number.
\<close>

datatype claim_time = Absent | Instant int | IllTyped

text \<open>
  A token as \<open>jwt.Parse\<close> has it after decoding its three segments: the algorithm its
  header declares, the text that was signed, the signature, and the claims \<open>exp\<close> and
  \<open>nbf\<close>.
\<close>

record token =
  alg :: string
  signing_input :: string
  signature :: string
  exp :: claim_time
  nbf :: claim_time

text \<open>
  The parts of package jwt (v5) the middleware runs through. \<open>segments\<close> decodes the token
  string (\<open>None\<close> when it is malformed), \<open>verify\<close> is the signature check of the method
  named by its first argument, \<open>clock\<close> is the time of the check.
\<close>

record jwtlib =
  segments :: "string \<Rightarrow> token option"
  verify :: "string \<Rightarrow> string \<Rightarrow> string \<Rightarrow> string \<Rightarrow> bool"
  clock :: int

text \<open>The signing methods the package registers.\<close>

definition signing_methods :: "string list" where
  "signing_methods =
     [''HS256'', ''HS384'', ''HS512'', ''RS256'', ''RS384'', ''RS512'',
      ''PS256'', ''PS384'', ''PS512'', ''ES256'', ''ES384'', ''ES512'',
      ''EdDSA'', ''none'']"

text \<open>
  The key function of the middleware. \<open>t.Method.Alg()[:2]\<close> panics on a name shorter
  than two bytes.
\<close>

datatype key_result = KeyPanic | KeyError | Key string

definition keyfunc :: "string \<Rightarrow> token \<Rightarrow> key_result" where
  "keyfunc secret t =
     (if length (alg t) < 2 then KeyPanic
      else if take 2 (alg t) \<noteq> ''HS'' then KeyError
      else Key secret)"

text \<open>The registered methods whose name passes the check of the key function.\<close>

definition hmac_family :: "string list" where
  "hmac_family = filter (\<lambda>a. take 2 a = ''HS'') signing_methods"

text \<open>
  \<open>MapClaims.parseNumericDate\<close>: a claim that is the number 0 is taken as not set.
\<close>

fun parseNumericDate :: "claim_time \<Rightarrow> claim_time" where
  "parseNumericDate (Instant e) = (if e = 0 then Absent else Instant e)"
| "parseNumericDate c = c"

text \<open>The default claim validation: \<open>exp\<close> and \<open>nbf\<close>, each checked only when set.\<close>

definition exp_ok :: "int \<Rightarrow> claim_time \<Rightarrow> bool" where
  "exp_ok t c =
     (case parseNumericDate c of Absent \<Rightarrow> True | Instant e \<Rightarrow> t < e | IllTyped \<Rightarrow> False)"

definition nbf_ok :: "int \<Rightarrow> claim_time \<Rightarrow> bool" where
  "nbf_ok t c =
     (case parseNumericDate c of Absent \<Rightarrow> True | Instant n \<Rightarrow> n \<le> t | IllTyped \<Rightarrow> False)"

text \<open>
  \<open>jwt.Parse\<close>: decode, look the declared method up, ask the key function, verify the
  signature, validate the claims; the first failure ends it. The package is a dependency
  of the service (github.com/golang-jwt/jwt/v5 in go.mod), not part of its sources; these
  are the steps of its parser, with the decoding and the cryptography left to \<open>jwtlib\<close>.
  The result records, beside the outcome, whether the run got as far as calling the
  signature check of the method.
\<close>

datatype parse_result = ParsePanic | ParseError | Valid token

record parsed =
  outcome :: parse_result
  verify_called :: bool

definition jwt_Parse :: "jwtlib \<Rightarrow> string \<Rightarrow> (token \<Rightarrow> key_result) \<Rightarrow> parsed" where
  "jwt_Parse J tokenStr kf =
     (case segments J tokenStr of
        None \<Rightarrow> \<lparr>outcome = ParseError, verify_called = False\<rparr>
      | Some t \<Rightarrow>
          if alg t \<notin> set signing_methods
          then \<lparr>outcome = ParseError, verify_called = False\<rparr>
          else (case kf t of
                  KeyPanic \<Rightarrow> \<lparr>outcome = ParsePanic, verify_called = False\<rparr>
                | KeyError \<Rightarrow> \<lparr>outcome = ParseError, verify_called = False\<rparr>
                | Key k \<Rightarrow>
                    if \<not> verify J (alg t) (signing_input t) (signature t) k
                    then \<lparr>outcome = ParseError, verify_called = True\<rparr>
                    else if \<not> exp_ok (clock J) (exp t)
                    then \<lparr>outcome = ParseError, verify_called = True\<rparr>
                    else if \<not> nbf_ok (clock J) (nbf t)
                    then \<lparr>outcome = ParseError, verify_called = True\<rparr>
                    else \<lparr>outcome = Valid t, verify_called = True\<rparr>))"

text \<open>\<open>strings.SplitN(h, " ", 2)\<close>: the text before and after the first space, if there is one.\<close>

fun split_space :: "string \<Rightarrow> (string \<times> string) option" where
  "split_space [] = None"
| "split_space (c # r) =
     (if c = CHR '' '' then Some ([], r)
      else case split_space r of
        None \<Rightarrow> None
      | Some (a, b) \<Rightarrow> Some (c # a, b))"

text \<open>
  What the server does with a request: it answers, or the handler panicked and the
  connection is dropped without an answer.
\<close>

datatype 'a served = Dropped | Answered 'a

definition unauthorized :: "string \<Rightarrow> 't store \<Rightarrow> 't handled served" where
  "unauthorized msg st = Answered \<lparr>reply = http_Error msg 401, after = st, spawned = None\<rparr>"

text \<open>
  \<open>jwtAuthMiddleware\<close>, applied to the header value \<open>h\<close> (empty when the header is
  missing). \<open>next\<close> is the handler behind it, given the token whose claims go into the
  request context.
\<close>

definition jwtAuthMiddleware ::
  "(string \<rightharpoonup> string) \<Rightarrow> jwtlib \<Rightarrow> (token \<Rightarrow> 't store \<Rightarrow> 't handled) \<Rightarrow> 't store \<Rightarrow> string
     \<Rightarrow> 't handled served" where
  "jwtAuthMiddleware environ J next st h =
     (let secret = getenv environ ''JWT_SECRET'' ''supersecret'' in
      if h = [] then unauthorized ''missing Authorization header'' st
      else case split_space h of
        None \<Rightarrow> unauthorized ''invalid Authorization header'' st
      | Some (scheme, tokenStr) \<Rightarrow>
          if map ascii_lower scheme \<noteq> ''bearer''
          then unauthorized ''invalid Authorization header'' st
          else (case outcome (jwt_Parse J tokenStr (keyfunc secret)) of
                  ParsePanic \<Rightarrow> Dropped
                | ParseError \<Rightarrow> unauthorized ''invalid token'' st
                | Valid t \<Rightarrow> Answered (next t st)))"

text \<open>The three routes under \<open>/api\<close>, all behind the middleware.\<close>

datatype operation = Create "json option" | Get int | List

record 't world =
  timel :: "'t timelib"
  environ :: "string \<rightharpoonup> string"
  jwtl :: jwtlib
  db_ok :: bool
  amqp :: transport

fun handler :: "'t world \<Rightarrow> operation \<Rightarrow> token \<Rightarrow> 't store \<Rightarrow> 't handled" where
  "handler W (Create req_body) t st = createBooking (timel W) (db_ok W) (amqp W) st req_body"
| "handler W (Get i) t st = getBooking (timel W) (db_ok W) st i"
| "handler W List t st = listBookings (timel W) (db_ok W) st"

definition api :: "'t world \<Rightarrow> 't store \<Rightarrow> string \<Rightarrow> operation \<Rightarrow> 't handled served" where
  "api W st h op = jwtAuthMiddleware (environ W) (jwtl W) (handler W op) st h"


section \<open>The restaurant service: the deletion event\<close>

text \<open>
  \<open>deleteRestaurant\<close> of the restaurant service, for the path variable \<open>id\<close>: when its
  own store accepts the deletion it answers 204 and writes the event to topic
  \<open>restaurants\<close>; the payload is a \<open>map[string]string\<close>, so the id goes out as a JSON
  string.
\<close>

definition deleted_event :: "string \<Rightarrow> json" where
  "deleted_event ident =
     JObj (go_map [(''type'', JStr ''restaurant.deleted''),
                   (''data'', JObj (go_map [(''id'', JStr ident)]))])"

definition deleteRestaurant :: "bool \<Rightarrow> string \<Rightarrow> response \<times> json option" where
  "deleteRestaurant accepted ident =
     (if \<not> accepted then (http_Error ''db error'' 500, None)
      else (\<lparr>status = 204, body = NoBody\<rparr>, Some (deleted_event ident)))"


section \<open>The restaurant cache projector\<close>

text \<open>The struct the creation event's data is decoded into.\<close>

record restaurant =
  r_ID :: int
  r_Name :: string
  r_City :: string
  r_Seats :: int

definition zero_restaurant :: restaurant where
  "zero_restaurant = \<lparr>r_ID = 0, r_Name = [], r_City = [], r_Seats = 0\<rparr>"

definition restaurant_member ::
  "(int \<Rightarrow> int option) \<Rightarrow> restaurant \<Rightarrow> string \<times> json \<Rightarrow> restaurant" where
  "restaurant_member big r kv =
     (let k = fold_key (fst kv); v = snd kv in
      if k = ''id'' then r\<lparr>r_ID := fst (int_field (via_float64 big) v (r_ID r))\<rparr>
      else if k = ''name'' then r\<lparr>r_Name := fst (string_field v (r_Name r))\<rparr>
      else if k = ''city'' then r\<lparr>r_City := fst (string_field v (r_City r))\<rparr>
      else if k = ''seats'' then r\<lparr>r_Seats := fst (int_field (via_float64 big) v (r_Seats r))\<rparr>
      else r)"

text \<open>
  \<open>bs, _ := json.Marshal(data); _ = json.Unmarshal(bs, &r)\<close>: \<open>data\<close> is a Go map when
  the JSON value was an object, and the struct stays zero otherwise; the error is dropped.
\<close>

fun decode_restaurant :: "(int \<Rightarrow> int option) \<Rightarrow> json \<Rightarrow> restaurant" where
  "decode_restaurant big (JObj ms) = foldl (restaurant_member big) zero_restaurant (go_map ms)"
| "decode_restaurant big v = zero_restaurant"

text \<open>The same for the deletion event's \<open>struct { ID int64 }\<close>.\<close>

definition id_member :: "(int \<Rightarrow> int option) \<Rightarrow> int \<Rightarrow> string \<times> json \<Rightarrow> int" where
  "id_member big i kv =
     (if fold_key (fst kv) = ''id'' then fst (int_field (via_float64 big) (snd kv) i) else i)"

fun decode_id :: "(int \<Rightarrow> int option) \<Rightarrow> json \<Rightarrow> int" where
  "decode_id big (JObj ms) = foldl (id_member big) 0 (go_map ms)"
| "decode_id big v = 0"

text \<open>
  \<open>json.Unmarshal(m.Value, &ev)\<close> into a \<open>map[string]interface{}\<close>: \<open>null\<close> gives the
  nil map, anything but \<open>null\<close> or an object is an error.
\<close>

fun unmarshal_map :: "json option \<Rightarrow> (string \<times> json) list option" where
  "unmarshal_map None = None"
| "unmarshal_map (Some JNull) = Some []"
| "unmarshal_map (Some (JObj ms)) = Some (go_map ms)"
| "unmarshal_map (Some v) = None"

text \<open>\<open>typ, _ := ev["type"].(string)\<close> and \<open>data := ev["data"]\<close>.\<close>

definition ev_type :: "(string \<times> json) list \<Rightarrow> string" where
  "ev_type ev = (case map_of ev ''type'' of Some (JStr s) \<Rightarrow> s | _ \<Rightarrow> [])"

definition ev_data :: "(string \<times> json) list \<Rightarrow> json" where
  "ev_data ev = (case map_of ev ''data'' of Some d \<Rightarrow> d | None \<Rightarrow> JNull)"

text \<open>
  The two statements on the cache. The result of \<open>db.Exec\<close> is dropped: a statement the
  store refuses changes nothing.
\<close>

definition exec_replace :: "bool \<Rightarrow> 't \<Rightarrow> restaurant \<Rightarrow> 't store \<Rightarrow> 't store" where
  "exec_replace ok t r st =
     (if ok
      then st\<lparr>restaurants_cache := (restaurants_cache st)
                (r_ID r \<mapsto> \<lparr>name = r_Name r, city = r_City r, seats = r_Seats r, last_seen = t\<rparr>)\<rparr>
      else st)"

definition exec_delete :: "bool \<Rightarrow> int \<Rightarrow> 't store \<Rightarrow> 't store" where
  "exec_delete ok i st =
     (if ok then st\<lparr>restaurants_cache := (restaurants_cache st)(i := None)\<rparr> else st)"

text \<open>
  One turn of the loop of \<open>consumeRestaurantEvents\<close>: what \<open>ReadMessage\<close> returned,
  whether the store takes the statement of this turn, and the store's \<open>NOW()\<close>.
\<close>

datatype reading = ReadError | Message "json option"

record 't turn =
  reading :: reading
  exec_ok :: bool
  now :: 't

definition project :: "(int \<Rightarrow> int option) \<Rightarrow> 't store \<Rightarrow> 't turn \<Rightarrow> 't store" where
  "project big st u =
     (case reading u of
        ReadError \<Rightarrow> st
      | Message v \<Rightarrow>
          (case unmarshal_map v of
             None \<Rightarrow> st
           | Some ev \<Rightarrow>
               if ev_type ev = ''restaurant.created''
               then exec_replace (exec_ok u) (now u) (decode_restaurant big (ev_data ev)) st
               else if ev_type ev = ''restaurant.deleted''
               then exec_delete (exec_ok u) (decode_id big (ev_data ev)) st
               else st))"

text \<open>
  The loop has no exit: no branch of its body returns, breaks or panics. Its state after
  a finite run of turns is the fold of \<open>project\<close>.
\<close>

fun consumeRestaurantEvents :: "(int \<Rightarrow> int option) \<Rightarrow> 't store \<Rightarrow> 't turn list \<Rightarrow> 't store" where
  "consumeRestaurantEvents big st [] = st"
| "consumeRestaurantEvents big st (u # us) = consumeRestaurantEvents big (project big st u) us"

text \<open>The envelope of a creation event, with the id as a JSON number.\<close>

definition created_event :: "int \<Rightarrow> string \<Rightarrow> string \<Rightarrow> int \<Rightarrow> json" where
  "created_event i n c s =
     JObj (go_map [(''type'', JStr ''restaurant.created''),
                   (''data'', JObj [(''id'', JNum i), (''name'', JStr n),
                                    (''city'', JStr c), (''seats'', JNum s)])])"


section \<open>Concrete inputs\<close>

text \<open>
  The body of a creation request that carries the four inputs of Create and nothing else.
\<close>

definition create_request :: "int \<Rightarrow> string \<Rightarrow> int \<Rightarrow> string \<Rightarrow> json" where
  "create_request r u p w =
     JObj [(''restaurant_id'', JNum r), (''user'', JStr u), (''people'', JNum p),
           (''when'', JStr w)]"

text \<open>The same body with an id member in front.\<close>

definition create_request_with_id :: "int \<Rightarrow> int \<Rightarrow> string \<Rightarrow> int \<Rightarrow> string \<Rightarrow> json" where
  "create_request_with_id i r u p w =
     JObj [(''id'', JNum i), (''restaurant_id'', JNum r), (''user'', JStr u),
           (''people'', JNum p), (''when'', JStr w)]"

text \<open>
  A time library for evaluation, in which a time is its own text, the empty text does
  not parse, and the store gives back the text it was given, as it does for a UTC time of
  whole seconds.
\<close>

definition text_times :: "string timelib" where
  "text_times =
     \<lparr>parse_time = (\<lambda>s. if s = [] then None else Some s),
      fmt_time = (\<lambda>t. t),
      zero_time = ''0001-01-01T00:00:00Z'',
      stored_time = (\<lambda>t. t)\<rparr>"

text \<open>
  A second one, in which a time is its milliseconds since the epoch with the minutes of
  its zone offset. It knows the texts of three instants; the store gives a time back in
  UTC, rounded to the whole second.
\<close>

definition zoned_times :: "(int \<times> int) timelib" where
  "zoned_times =
     \<lparr>parse_time = map_of
        [(''2025-11-10T19:00:00Z'', (1762801200000, 0)),
         (''2025-11-10T19:00:00.7+02:00'', (1762794000700, 120))],
      fmt_time = (\<lambda>t. case map_of
        [((1762801200000, 0), ''2025-11-10T19:00:00Z''),
         ((1762794000700, 120), ''2025-11-10T19:00:00.7+02:00''),
         ((1762794001000, 0), ''2025-11-10T17:00:01Z'')] t of
           None \<Rightarrow> [] | Some s \<Rightarrow> s),
      zero_time = (- 62135596800000, 0),
      stored_time = (\<lambda>t. (((fst t + 500) div 1000) * 1000, 0))\<rparr>"

text \<open>The store before anything was written.\<close>

definition empty_store :: "'t store" where
  "empty_store = \<lparr>bookings = [], next_id = 1, restaurants_cache = Map.empty\<rparr>"

text \<open>The envelope of a deletion event with the id as a JSON number.\<close>

definition deleted_event_num :: "int \<Rightarrow> json" where
  "deleted_event_num i =
     JObj (go_map [(''type'', JStr ''restaurant.deleted''),
                   (''data'', JObj [(''id'', JNum i)])])"

text \<open>A turn of the projector that receives the envelope \<open>v\<close> at time \<open>t\<close>, the store up.\<close>

definition receive :: "json \<Rightarrow> 't \<Rightarrow> 't turn" where
  "receive v t = \<lparr>reading = Message (Some v), exec_ok = True, now = t\<rparr>"

text \<open>
  A jwt library for evaluation: it knows one token string, accepts every signature, and
  its clock stands at 100.
\<close>

definition one_token :: "token \<Rightarrow> jwtlib" where
  "one_token t =
     \<lparr>segments = (\<lambda>s. if s = ''tok'' then Some t else None),
      verify = (\<lambda>a i s k. True),
      clock = 100\<rparr>"

definition demo_world :: "token \<Rightarrow> string world" where
  "demo_world t =
     \<lparr>timel = text_times, environ = Map.empty, jwtl = one_token t, db_ok = True,
      amqp = Delivers\<rparr>"


section \<open>Lemmas on decoding and on the store\<close>

lemma decode_create_request:
  assumes "int64_lit r = Some r" and "int64_lit p = Some p" and "parse_time L w = Some t"
  shows "decode_Booking L (Some (create_request r u p w)) =
           Some \<lparr>ID = 0, RestaurantID = r, User = u, People = p, When = t\<rparr>"
  using assms
  by (simp add: create_request_def booking_member_def zero_Booking_def ascii_lower_def)

lemma decode_create_request_with_id:
  assumes "int64_lit i = Some i" and "int64_lit r = Some r" and "int64_lit p = Some p"
    and "parse_time L w = Some t"
  shows "decode_Booking L (Some (create_request_with_id i r u p w)) =
           Some \<lparr>ID = i, RestaurantID = r, User = u, People = p, When = t\<rparr>"
  using assms
  by (simp add: create_request_with_id_def booking_member_def zero_Booking_def ascii_lower_def)

text \<open>The key invariant holds of the empty store and is kept by every insertion.\<close>

lemma fresh_ids_empty: "fresh_ids empty_store"
  by (simp add: fresh_ids_def empty_store_def)

lemma fresh_ids_insert: "fresh_ids st \<Longrightarrow> fresh_ids (insert_booking L b st)"
  by (auto simp: fresh_ids_def insert_booking_def list_all_iff)

lemma find_fresh:
  "list_all (\<lambda>r. row_id r < n) rs \<Longrightarrow>
   find (\<lambda>r. row_id r = n) (rs @ [x]) = (if row_id x = n then Some x else None)"
  by (induction rs) auto

lemma get_after_insert:
  assumes "fresh_ids st"
  shows "getBooking L True (insert_booking L b st) (next_id st) =
     \<lparr>reply = \<lparr>status = 200,
               body = Json (encode_Booking L
                        (b\<lparr>ID := next_id st, When := stored_time L (When b)\<rparr>))\<rparr>,
      after = insert_booking L b st, spawned = None\<rparr>"
  using assms
  by (cases b) (simp add: getBooking_def insert_booking_def fresh_ids_def find_fresh scan_row_def)

lemma create_decoded:
  assumes "decode_Booking L req = Some b"
  shows "createBooking L True tr st req =
     \<lparr>reply = \<lparr>status = 201, body = Json (encode_Booking L b)\<rparr>,
      after = insert_booking L b st,
      spawned = Some (publishRabbitNotification L tr b)\<rparr>"
  using assms by (simp add: createBooking_def)


section \<open>Create followed by Get\<close>

text \<open>
  C1, as stated: for valid input Create returns the persisted Booking with its
  store-assigned id, and Get on the returned id yields an equal Booking. The code does
  otherwise: the result of the INSERT is dropped and the response is the Booking as
  decoded from the request, so its id is the one the request carried, 0 when it carried
  none. On the empty store the first row gets key 1, the response says id 0, and Get on 0
  answers 404.
\<close>

theorem create_returns_request_id_counterexample:
  "body (reply (createBooking text_times True Delivers (empty_store :: string store)
            (Some (create_request 1 ''alice'' 2 ''2025-11-10T19:00:00Z'')))) =
     Json (JObj [(''id'', JNum 0), (''restaurant_id'', JNum 1), (''user'', JStr ''alice''),
                 (''people'', JNum 2), (''when'', JStr ''2025-11-10T19:00:00Z'')])
   \<and> map row_id (bookings (after (createBooking text_times True Delivers
            (empty_store :: string store)
            (Some (create_request 1 ''alice'' 2 ''2025-11-10T19:00:00Z''))))) = [1]
   \<and> status (reply (getBooking text_times True
        (after (createBooking text_times True Delivers (empty_store :: string store)
            (Some (create_request 1 ''alice'' 2 ''2025-11-10T19:00:00Z'')))) 0)) = 404"
  by (simp add: createBooking_def create_request_def booking_member_def zero_Booking_def
      ascii_lower_def int64_lit_def text_times_def encode_Booking_def insert_booking_def
      empty_store_def getBooking_def http_NotFound_def http_Error_def)

text \<open>
  C1, amended: for every request whose body decodes to a Booking of restaurant id \<open>r\<close>,
  user \<open>u\<close>, party size \<open>p > 0\<close> and time \<open>t\<close>, with \<open>i\<close> the id the body carried (0 when it
  carried none), and a store that accepts the row: Create answers 201 with that Booking,
  id \<open>i\<close> and time \<open>t\<close> as decoded; the store holds the row under the key it assigned, with
  the time as the store renders it; and Get on the assigned key answers 200 with the
  assigned id, the same restaurant id, user and party size, and the time as the store
  renders it, which is the time of the Create response only where the store gives the
  time back unchanged.
\<close>

theorem create_then_get:
  assumes "decode_Booking L req =
             Some \<lparr>ID = i, RestaurantID = r, User = u, People = p, When = t\<rparr>"
    and "0 < p" and "fresh_ids st"
    and "h = createBooking L True tr st req"
  shows "reply h = \<lparr>status = 201, body = Json (encode_Booking L
                      \<lparr>ID = i, RestaurantID = r, User = u, People = p, When = t\<rparr>)\<rparr>
       \<and> bookings (after h) = bookings st @
            [\<lparr>row_id = next_id st, row_restaurant_id = Some r, row_user = Some u,
              row_people = Some p, row_when_ts = Some (stored_time L t)\<rparr>]
       \<and> reply (getBooking L True (after h) (next_id st)) =
           \<lparr>status = 200, body = Json (encode_Booking L
                      \<lparr>ID = next_id st, RestaurantID = r, User = u, People = p,
                       When = stored_time L t\<rparr>)\<rparr>"
proof -
  let ?b = "\<lparr>ID = i, RestaurantID = r, User = u, People = p, When = t\<rparr>"
  have c: "h = \<lparr>reply = \<lparr>status = 201, body = Json (encode_Booking L ?b)\<rparr>,
      after = insert_booking L ?b st,
      spawned = Some (publishRabbitNotification L tr ?b)\<rparr>"
    unfolding assms(4) using assms(1) by (rule create_decoded)
  have g: "reply (getBooking L True (after h) (next_id st)) =
      \<lparr>status = 200,
       body = Json (encode_Booking L (?b\<lparr>ID := next_id st, When := stored_time L (When ?b)\<rparr>))\<rparr>"
    using get_after_insert [OF assms(3), of L ?b] by (simp add: c)
  show ?thesis using g by (simp add: c insert_booking_def)
qed

theorem create_then_get_witness:
  "reply (createBooking zoned_times True Delivers (empty_store :: (int \<times> int) store)
            (Some (create_request 1 ''alice'' 2 ''2025-11-10T19:00:00.7+02:00''))) =
     \<lparr>status = 201,
      body = Json (JObj [(''id'', JNum 0), (''restaurant_id'', JNum 1),
                         (''user'', JStr ''alice''), (''people'', JNum 2),
                         (''when'', JStr ''2025-11-10T19:00:00.7+02:00'')])\<rparr>
   \<and> reply (getBooking zoned_times True
        (after (createBooking zoned_times True Delivers (empty_store :: (int \<times> int) store)
            (Some (create_request 1 ''alice'' 2 ''2025-11-10T19:00:00.7+02:00'')))) 1) =
     \<lparr>status = 200,
      body = Json (JObj [(''id'', JNum 1), (''restaurant_id'', JNum 1),
                         (''user'', JStr ''alice''), (''people'', JNum 2),
                         (''when'', JStr ''2025-11-10T17:00:01Z'')])\<rparr>
   \<and> reply (createBooking zoned_times True Delivers (empty_store :: (int \<times> int) store)
            (Some (create_request_with_id 42 1 ''alice'' 2 ''2025-11-10T19:00:00Z''))) =
     \<lparr>status = 201,
      body = Json (JObj [(''id'', JNum 42), (''restaurant_id'', JNum 1),
                         (''user'', JStr ''alice''), (''people'', JNum 2),
                         (''when'', JStr ''2025-11-10T19:00:00Z'')])\<rparr>
   \<and> reply (getBooking zoned_times True
        (after (createBooking zoned_times True Delivers (empty_store :: (int \<times> int) store)
            (Some (create_request_with_id 42 1 ''alice'' 2 ''2025-11-10T19:00:00Z'')))) 1) =
     \<lparr>status = 200,
      body = Json (JObj [(''id'', JNum 1), (''restaurant_id'', JNum 1),
                         (''user'', JStr ''alice''), (''people'', JNum 2),
                         (''when'', JStr ''2025-11-10T19:00:00Z'')])\<rparr>"
proof -
  have n: "int64_lit 1 = Some 1" "int64_lit 2 = Some 2" "int64_lit 42 = Some 42"
    by (simp_all add: int64_lit_def)
  have p1: "parse_time zoned_times ''2025-11-10T19:00:00.7+02:00'' = Some (1762794000700, 120)"
    by (simp add: zoned_times_def)
  have p2: "parse_time zoned_times ''2025-11-10T19:00:00Z'' = Some (1762801200000, 0)"
    by (simp add: zoned_times_def)
  have d1: "decode_Booking zoned_times
        (Some (create_request 1 ''alice'' 2 ''2025-11-10T19:00:00.7+02:00'')) =
      Some \<lparr>ID = 0, RestaurantID = 1, User = ''alice'', People = 2,
            When = (1762794000700, 120)\<rparr>"
    using n(1,2) p1 by (rule decode_create_request)
  have d2: "decode_Booking zoned_times
        (Some (create_request_with_id 42 1 ''alice'' 2 ''2025-11-10T19:00:00Z'')) =
      Some \<lparr>ID = 42, RestaurantID = 1, User = ''alice'', People = 2,
            When = (1762801200000, 0)\<rparr>"
    using n(3,1,2) p2 by (rule decode_create_request_with_id)
  have pos: "(0::int) < 2" by simp
  have f: "fresh_ids (empty_store :: (int \<times> int) store)" by (rule fresh_ids_empty)
  show ?thesis
    using create_then_get [OF d1 pos f refl, of Delivers]
      create_then_get [OF d2 pos f refl, of Delivers]
    by (simp add: empty_store_def encode_Booking_def zoned_times_def)
qed


section \<open>Validation in Create\<close>

text \<open>
  C2, as stated: a Create request whose party size is not positive fails with 400 and
  writes no row. The code does not look at the party size: the request with party size 0
  is answered 201 and its row is written.
\<close>

theorem create_nonpositive_party_counterexample:
  "status (reply (createBooking text_times True Delivers (empty_store :: string store)
            (Some (create_request 1 ''alice'' 0 ''2025-11-10T19:00:00Z'')))) = 201
   \<and> bookings (after (createBooking text_times True Delivers (empty_store :: string store)
            (Some (create_request 1 ''alice'' 0 ''2025-11-10T19:00:00Z'')))) =
       [\<lparr>row_id = 1, row_restaurant_id = Some 1, row_user = Some ''alice'',
         row_people = Some 0, row_when_ts = Some ''2025-11-10T19:00:00Z''\<rparr>]"
  by (simp add: createBooking_def create_request_def booking_member_def zero_Booking_def
      ascii_lower_def int64_lit_def text_times_def insert_booking_def empty_store_def)

text \<open>
  C2, amended: Create fails with 400 and writes no row when the body does not decode into
  a Booking; the party size is not validated, and a request with a party size of zero or
  less that decodes is written and answered 201 when the store accepts the row.
\<close>

theorem create_rejects_only_undecodable:
  "(decode_Booking L req = None \<longrightarrow>
      createBooking L ok tr st req =
        \<lparr>reply = http_Error ''bad request'' 400, after = st, spawned = None\<rparr>)
   \<and> (int64_lit r = Some r \<and> int64_lit p = Some p \<and> p \<le> 0 \<and> parse_time L w = Some t \<longrightarrow>
      status (reply (createBooking L True tr st (Some (create_request r u p w)))) = 201
      \<and> bookings (after (createBooking L True tr st (Some (create_request r u p w)))) =
          bookings st @
            [\<lparr>row_id = next_id st, row_restaurant_id = Some r, row_user = Some u,
              row_people = Some p, row_when_ts = Some (stored_time L t)\<rparr>])"
proof (intro conjI impI)
  assume "decode_Booking L req = None"
  then show "createBooking L ok tr st req =
        \<lparr>reply = http_Error ''bad request'' 400, after = st, spawned = None\<rparr>"
    by (simp add: createBooking_def)
next
  assume a: "int64_lit r = Some r \<and> int64_lit p = Some p \<and> p \<le> 0 \<and> parse_time L w = Some t"
  let ?b = "\<lparr>ID = 0, RestaurantID = r, User = u, People = p, When = t\<rparr>"
  have d: "decode_Booking L (Some (create_request r u p w)) = Some ?b"
    using a by (simp add: decode_create_request)
  show "status (reply (createBooking L True tr st (Some (create_request r u p w)))) = 201"
    by (simp add: create_decoded [OF d])
  show "bookings (after (createBooking L True tr st (Some (create_request r u p w)))) =
          bookings st @
            [\<lparr>row_id = next_id st, row_restaurant_id = Some r, row_user = Some u,
              row_people = Some p, row_when_ts = Some (stored_time L t)\<rparr>]"
    by (simp add: create_decoded [OF d] insert_booking_def)
qed

theorem create_rejects_only_undecodable_witness:
  "decode_Booking text_times (Some (JObj [(''people'', JStr ''two'')])) = None
   \<and> createBooking text_times True Delivers (empty_store :: string store)
        (Some (JObj [(''people'', JStr ''two'')])) =
        \<lparr>reply = http_Error ''bad request'' 400, after = empty_store, spawned = None\<rparr>
   \<and> int64_lit 1 = Some 1 \<and> int64_lit (- 3) = Some (- 3) \<and> (- 3 :: int) \<le> 0
   \<and> parse_time text_times ''2025-11-10T19:00:00Z'' = Some ''2025-11-10T19:00:00Z''
   \<and> status (reply (createBooking text_times True Delivers (empty_store :: string store)
        (Some (create_request 1 ''alice'' (- 3) ''2025-11-10T19:00:00Z'')))) = 201"
proof -
  have a: "decode_Booking text_times (Some (JObj [(''people'', JStr ''two'')])) = None"
    by (simp add: booking_member_def zero_Booking_def ascii_lower_def)
  have b: "int64_lit 1 = Some 1 \<and> int64_lit (- 3) = Some (- 3) \<and> (- 3 :: int) \<le> 0
      \<and> parse_time text_times ''2025-11-10T19:00:00Z'' = Some ''2025-11-10T19:00:00Z''"
    by (simp add: int64_lit_def text_times_def)
  show ?thesis
    using a b
      create_rejects_only_undecodable [of text_times "Some (JObj [(''people'', JStr ''two'')])"
        True Delivers "empty_store :: string store" 1 "- 3" "''2025-11-10T19:00:00Z''"
        "''2025-11-10T19:00:00Z''" "''alice''"]
    by simp
qed


section \<open>Rejected credentials\<close>

lemma hmac_family_names: "hmac_family = [''HS256'', ''HS384'', ''HS512'']"
  by (simp add: hmac_family_def signing_methods_def)

lemma keyfunc_outside_hmac:
  assumes "alg t \<in> set signing_methods" and "alg t \<notin> set hmac_family"
  shows "keyfunc secret t = KeyError"
  using assms by (auto simp: hmac_family_names signing_methods_def keyfunc_def)

lemma keyfunc_never_panics:
  assumes "alg t \<in> set signing_methods"
  shows "keyfunc secret t \<noteq> KeyPanic"
  using assms by (auto simp: signing_methods_def keyfunc_def)

lemma keyfunc_inside_hmac:
  assumes "alg t \<in> set hmac_family"
  shows "keyfunc secret t = Key secret"
  using assms by (auto simp: hmac_family_names keyfunc_def)

text \<open>
  A token whose declared algorithm is outside the family ends the parser at the method
  table or at the key function: the signature check is not called. A token of the family
  always gets as far as the signature check.
\<close>

lemma alg_checked_before_signature:
  assumes "segments J s = Some t" and "alg t \<notin> set hmac_family"
  shows "jwt_Parse J s (keyfunc secret) = \<lparr>outcome = ParseError, verify_called = False\<rparr>"
proof (cases "alg t \<in> set signing_methods")
  case False
  then show ?thesis using assms(1) by (simp add: jwt_Parse_def)
next
  case True
  then have "keyfunc secret t = KeyError" using assms(2) by (rule keyfunc_outside_hmac)
  then show ?thesis using assms(1) True by (simp add: jwt_Parse_def)
qed

lemma family_token_is_verified:
  assumes "segments J s = Some t" and "alg t \<in> set hmac_family"
  shows "verify_called (jwt_Parse J s (keyfunc secret))"
proof -
  have "alg t \<in> set signing_methods"
    using assms(2) by (simp add: hmac_family_def)
  then show ?thesis
    using assms(1) keyfunc_inside_hmac [OF assms(2), of secret] by (simp add: jwt_Parse_def)
qed

lemma expired_rejected:
  assumes "segments J s = Some t" and "exp t = Instant e" and "e \<noteq> 0" and "e \<le> clock J"
  shows "outcome (jwt_Parse J s (keyfunc secret)) = ParseError"
proof -
  have x: "\<not> exp_ok (clock J) (exp t)" using assms(2,3,4) by (simp add: exp_ok_def)
  show ?thesis
  proof (cases "alg t \<in> set signing_methods")
    case False
    then show ?thesis using assms(1) by (simp add: jwt_Parse_def)
  next
    case True
    then have "keyfunc secret t \<noteq> KeyPanic" by (rule keyfunc_never_panics)
    then show ?thesis using assms(1) True x
      by (simp add: jwt_Parse_def split: key_result.split)
  qed
qed

lemma parse_rejects:
  assumes "segments J s = Some t"
    and "alg t \<notin> set hmac_family \<or> (\<exists>e. exp t = Instant e \<and> e \<noteq> 0 \<and> e \<le> clock J)"
  shows "outcome (jwt_Parse J s (keyfunc secret)) = ParseError"
  using assms by (auto simp: alg_checked_before_signature expired_rejected)

lemma good_credential_served:
  "api (demo_world \<lparr>alg = ''HS256'', signing_input = ''x'', signature = ''y'',
                       exp = Instant 101, nbf = Absent\<rparr>)
       empty_store ''Bearer tok'' (Get 1)
     = Answered \<lparr>reply = http_NotFound, after = empty_store, spawned = None\<rparr>"
  by (simp add: api_def jwtAuthMiddleware_def demo_world_def one_token_def jwt_Parse_def
      signing_methods_def keyfunc_def getBooking_def empty_store_def ascii_lower_def
      exp_ok_def nbf_ok_def)

text \<open>
  C3, as stated: a request bearing an expired credential is answered 401 by every
  operation, never with success. The parser of the jwt package takes a numeric \<open>exp\<close> of 0
  as no expiry at all, so a token of the HMAC family with a good signature and \<open>exp\<close> 0,
  an expiry long before the clock's 100, passes the middleware and List answers 200.
\<close>

theorem zero_exp_is_served_counterexample:
  "clock (jwtl (demo_world \<lparr>alg = ''HS256'', signing_input = ''x'', signature = ''y'',
                             exp = Instant 0, nbf = Absent\<rparr>)) = 100
   \<and> api (demo_world \<lparr>alg = ''HS256'', signing_input = ''x'', signature = ''y'',
                       exp = Instant 0, nbf = Absent\<rparr>)
       empty_store ''Bearer tok'' List
     = Answered \<lparr>reply = \<lparr>status = 200, body = Json (JArr [])\<rparr>,
                 after = empty_store, spawned = None\<rparr>"
  by (simp add: api_def jwtAuthMiddleware_def demo_world_def one_token_def jwt_Parse_def
      signing_methods_def keyfunc_def listBookings_def empty_store_def ascii_lower_def
      exp_ok_def nbf_ok_def)

text \<open>
  C3, amended: a request whose Authorization header carries a token whose \<open>exp\<close> is a
  number other than 0 at or before the time of the check, or whose declared algorithm is
  not one of the HMAC family, is answered 401 by every operation of the Booking API:
  never 400, never a success, and no handler runs (the store is as it was and nothing is
  spawned). For a declared algorithm outside the family the parser stops before the
  signature check, which is not called. A token with \<open>exp\<close> 0 is treated as one without
  expiry.
\<close>

theorem bad_credential_unauthorized:
  assumes "split_space h = Some (scheme, tokenStr)"
    and "segments (jwtl W) tokenStr = Some t"
    and "alg t \<notin> set hmac_family
         \<or> (\<exists>e. exp t = Instant e \<and> e \<noteq> 0 \<and> e \<le> clock (jwtl W))"
  shows "api W st h op =
           Answered \<lparr>reply = http_Error (if map ascii_lower scheme = ''bearer''
                                         then ''invalid token''
                                         else ''invalid Authorization header'') 401,
                     after = st, spawned = None\<rparr>
       \<and> (alg t \<notin> set hmac_family \<longrightarrow>
            \<not> verify_called (jwt_Parse (jwtl W) tokenStr
                (keyfunc (getenv (environ W) ''JWT_SECRET'' ''supersecret''))))"
proof -
  have h: "h \<noteq> []" using assms(1) by auto
  have p: "outcome (jwt_Parse (jwtl W) tokenStr
             (keyfunc (getenv (environ W) ''JWT_SECRET'' ''supersecret''))) = ParseError"
    using assms(2,3) by (rule parse_rejects)
  have "api W st h op =
           Answered \<lparr>reply = http_Error (if map ascii_lower scheme = ''bearer''
                                         then ''invalid token''
                                         else ''invalid Authorization header'') 401,
                     after = st, spawned = None\<rparr>"
    using h assms(1) p by (simp add: api_def jwtAuthMiddleware_def unauthorized_def)
  then show ?thesis
    using assms(2) by (simp add: alg_checked_before_signature)
qed

theorem bad_credential_unauthorized_witness:
  "api (demo_world \<lparr>alg = ''none'', signing_input = ''x'', signature = [], exp = Absent,
                    nbf = Absent\<rparr>)
       empty_store ''Bearer tok''
       (Create (Some (create_request 1 ''alice'' 2 ''2025-11-10T19:00:00Z'')))
     = Answered \<lparr>reply = \<lparr>status = 401, body = Text (''invalid token'' @ [CHR 0x0A])\<rparr>,
                 after = empty_store, spawned = None\<rparr>
   \<and> \<not> verify_called (jwt_Parse
         (jwtl (demo_world \<lparr>alg = ''none'', signing_input = ''x'', signature = [],
                             exp = Absent, nbf = Absent\<rparr>)) ''tok''
         (keyfunc ''supersecret''))
   \<and> api (demo_world \<lparr>alg = ''HS256'', signing_input = ''x'', signature = ''y'',
                       exp = Instant 99, nbf = Absent\<rparr>)
       empty_store ''bearer tok'' (Get 1)
     = Answered \<lparr>reply = \<lparr>status = 401, body = Text (''invalid token'' @ [CHR 0x0A])\<rparr>,
                 after = empty_store, spawned = None\<rparr>"
proof -
  let ?t1 = "\<lparr>alg = ''none'', signing_input = ''x'', signature = [], exp = Absent,
              nbf = Absent\<rparr>"
  let ?t2 = "\<lparr>alg = ''HS256'', signing_input = ''x'', signature = ''y'',
              exp = Instant 99, nbf = Absent\<rparr>"
  have s1: "split_space ''Bearer tok'' = Some (''Bearer'', ''tok'')" by simp
  have s2: "split_space ''bearer tok'' = Some (''bearer'', ''tok'')" by simp
  have g1: "segments (jwtl (demo_world ?t1)) ''tok'' = Some ?t1"
    by (simp add: demo_world_def one_token_def)
  have g2: "segments (jwtl (demo_world ?t2)) ''tok'' = Some ?t2"
    by (simp add: demo_world_def one_token_def)
  have b1: "alg ?t1 \<notin> set hmac_family
      \<or> (\<exists>e. exp ?t1 = Instant e \<and> e \<noteq> 0 \<and> e \<le> clock (jwtl (demo_world ?t1)))"
    by (simp add: hmac_family_names)
  have b2: "alg ?t2 \<notin> set hmac_family
      \<or> (\<exists>e. exp ?t2 = Instant e \<and> e \<noteq> 0 \<and> e \<le> clock (jwtl (demo_world ?t2)))"
    by (simp add: demo_world_def one_token_def)
  have e: "getenv (environ (demo_world ?t1)) ''JWT_SECRET'' ''supersecret'' = ''supersecret''"
    by (simp add: getenv_def demo_world_def)
  have n: "alg ?t1 \<notin> set hmac_family" by (simp add: hmac_family_names)
  show ?thesis
    using bad_credential_unauthorized [OF s1 g1 b1, of empty_store
        "Create (Some (create_request 1 ''alice'' 2 ''2025-11-10T19:00:00Z''))"]
      bad_credential_unauthorized [OF s2 g2 b2, of empty_store "Get 1"]
      e n
    by (simp add: http_Error_def ascii_lower_def)
qed


section \<open>The notification does not flow into the response\<close>

text \<open>
  C4: two runs of Create on the same input and store, meeting any two transports (one
  that delivers, one that fails at any step), give the same response and the same store;
  and when the request decodes and the store accepts the row, Create answers 201 and the
  booking is retrievable by Get, under the key the store assigned and with the time as
  the store renders it, after either run.
\<close>

theorem publish_outcome_not_observed:
  "reply (createBooking L ok tr st req) = reply (createBooking L ok tr' st req)
   \<and> after (createBooking L ok tr st req) = after (createBooking L ok tr' st req)
   \<and> (decode_Booking L req = Some b \<and> ok \<and> fresh_ids st \<longrightarrow>
        reply (createBooking L ok tr st req) =
          \<lparr>status = 201, body = Json (encode_Booking L b)\<rparr>
        \<and> reply (getBooking L True (after (createBooking L ok tr st req)) (next_id st)) =
          \<lparr>status = 200,
           body = Json (encode_Booking L
                    (b\<lparr>ID := next_id st, When := stored_time L (When b)\<rparr>))\<rparr>
        \<and> reply (getBooking L True (after (createBooking L ok tr' st req)) (next_id st)) =
          \<lparr>status = 200,
           body = Json (encode_Booking L
                    (b\<lparr>ID := next_id st, When := stored_time L (When b)\<rparr>))\<rparr>)"
proof (intro conjI impI)
  show "reply (createBooking L ok tr st req) = reply (createBooking L ok tr' st req)"
    by (simp add: createBooking_def split: option.split)
  show "after (createBooking L ok tr st req) = after (createBooking L ok tr' st req)"
    by (simp add: createBooking_def split: option.split)
next
  assume a: "decode_Booking L req = Some b \<and> ok \<and> fresh_ids st"
  then have d: "decode_Booking L req = Some b" and o: "ok = True" and f: "fresh_ids st"
    by simp_all
  show "reply (createBooking L ok tr st req) =
          \<lparr>status = 201, body = Json (encode_Booking L b)\<rparr>"
    unfolding o by (simp add: create_decoded [OF d])
  show "reply (getBooking L True (after (createBooking L ok tr st req)) (next_id st)) =
          \<lparr>status = 200,
           body = Json (encode_Booking L
                    (b\<lparr>ID := next_id st, When := stored_time L (When b)\<rparr>))\<rparr>"
    unfolding o by (simp add: create_decoded [OF d] get_after_insert [OF f])
  show "reply (getBooking L True (after (createBooking L ok tr' st req)) (next_id st)) =
          \<lparr>status = 200,
           body = Json (encode_Booking L
                    (b\<lparr>ID := next_id st, When := stored_time L (When b)\<rparr>))\<rparr>"
    unfolding o by (simp add: create_decoded [OF d] get_after_insert [OF f])
qed

theorem publish_outcome_not_observed_witness:
  "reply (createBooking zoned_times True Delivers (empty_store :: (int \<times> int) store)
        (Some (create_request 1 ''alice'' 2 ''2025-11-10T19:00:00.7+02:00''))) =
     \<lparr>status = 201,
      body = Json (JObj [(''id'', JNum 0), (''restaurant_id'', JNum 1),
                         (''user'', JStr ''alice''), (''people'', JNum 2),
                         (''when'', JStr ''2025-11-10T19:00:00.7+02:00'')])\<rparr>
   \<and> reply (createBooking zoned_times True DialFails (empty_store :: (int \<times> int) store)
        (Some (create_request 1 ''alice'' 2 ''2025-11-10T19:00:00.7+02:00''))) =
     \<lparr>status = 201,
      body = Json (JObj [(''id'', JNum 0), (''restaurant_id'', JNum 1),
                         (''user'', JStr ''alice''), (''people'', JNum 2),
                         (''when'', JStr ''2025-11-10T19:00:00.7+02:00'')])\<rparr>
   \<and> bookings (after (createBooking zoned_times True Delivers
        (empty_store :: (int \<times> int) store)
        (Some (create_request 1 ''alice'' 2 ''2025-11-10T19:00:00.7+02:00'')))) =
     bookings (after (createBooking zoned_times True DialFails
        (empty_store :: (int \<times> int) store)
        (Some (create_request 1 ''alice'' 2 ''2025-11-10T19:00:00.7+02:00''))))
   \<and> reply (getBooking zoned_times True
        (after (createBooking zoned_times True Delivers (empty_store :: (int \<times> int) store)
           (Some (create_request 1 ''alice'' 2 ''2025-11-10T19:00:00.7+02:00'')))) 1) =
     \<lparr>status = 200,
      body = Json (JObj [(''id'', JNum 1), (''restaurant_id'', JNum 1),
                         (''user'', JStr ''alice''), (''people'', JNum 2),
                         (''when'', JStr ''2025-11-10T17:00:01Z'')])\<rparr>
   \<and> reply (getBooking zoned_times True
        (after (createBooking zoned_times True DialFails (empty_store :: (int \<times> int) store)
           (Some (create_request 1 ''alice'' 2 ''2025-11-10T19:00:00.7+02:00'')))) 1) =
     \<lparr>status = 200,
      body = Json (JObj [(''id'', JNum 1), (''restaurant_id'', JNum 1),
                         (''user'', JStr ''alice''), (''people'', JNum 2),
                         (''when'', JStr ''2025-11-10T17:00:01Z'')])\<rparr>"
proof -
  let ?req = "Some (create_request 1 ''alice'' 2 ''2025-11-10T19:00:00.7+02:00'')"
  let ?b = "\<lparr>ID = 0, RestaurantID = 1, User = ''alice'', People = 2,
             When = (1762794000700 :: int, 120 :: int)\<rparr>"
  have d: "decode_Booking zoned_times ?req = Some ?b"
    by (simp add: decode_create_request int64_lit_def zoned_times_def)
  have f: "fresh_ids (empty_store :: (int \<times> int) store)" by (rule fresh_ids_empty)
  have a: "decode_Booking zoned_times ?req = Some ?b \<and> True
      \<and> fresh_ids (empty_store :: (int \<times> int) store)"
    using d f by simp
  have e1: "encode_Booking zoned_times ?b =
      JObj [(''id'', JNum 0), (''restaurant_id'', JNum 1), (''user'', JStr ''alice''),
            (''people'', JNum 2), (''when'', JStr ''2025-11-10T19:00:00.7+02:00'')]"
    by (simp add: encode_Booking_def zoned_times_def)
  have e2: "encode_Booking zoned_times
        (?b\<lparr>ID := 1, When := stored_time zoned_times (When ?b)\<rparr>) =
      JObj [(''id'', JNum 1), (''restaurant_id'', JNum 1), (''user'', JStr ''alice''),
            (''people'', JNum 2), (''when'', JStr ''2025-11-10T17:00:01Z'')]"
    by (simp add: encode_Booking_def zoned_times_def)
  have n: "next_id (empty_store :: (int \<times> int) store) = 1"
    by (simp add: empty_store_def)
  note t = publish_outcome_not_observed [of zoned_times True Delivers
        "empty_store :: (int \<times> int) store" ?req DialFails ?b]
  have r1: "reply (createBooking zoned_times True Delivers
        (empty_store :: (int \<times> int) store) ?req) =
      \<lparr>status = 201, body = Json (encode_Booking zoned_times ?b)\<rparr>"
    using t a by blast
  have r2: "reply (createBooking zoned_times True DialFails
        (empty_store :: (int \<times> int) store) ?req) =
      \<lparr>status = 201, body = Json (encode_Booking zoned_times ?b)\<rparr>"
    using t a by metis
  have s: "after (createBooking zoned_times True Delivers
        (empty_store :: (int \<times> int) store) ?req) =
      after (createBooking zoned_times True DialFails
        (empty_store :: (int \<times> int) store) ?req)"
    using t by blast
  have g1: "reply (getBooking zoned_times True
        (after (createBooking zoned_times True Delivers
           (empty_store :: (int \<times> int) store) ?req))
        (next_id (empty_store :: (int \<times> int) store))) =
      \<lparr>status = 200, body = Json (encode_Booking zoned_times
        (?b\<lparr>ID := next_id (empty_store :: (int \<times> int) store),
             When := stored_time zoned_times (When ?b)\<rparr>))\<rparr>"
    using t a by blast
  have g2: "reply (getBooking zoned_times True
        (after (createBooking zoned_times True DialFails
           (empty_store :: (int \<times> int) store) ?req))
        (next_id (empty_store :: (int \<times> int) store))) =
      \<lparr>status = 200, body = Json (encode_Booking zoned_times
        (?b\<lparr>ID := next_id (empty_store :: (int \<times> int) store),
             When := stored_time zoned_times (When ?b)\<rparr>))\<rparr>"
    using t a by blast
  show ?thesis
    using r1 r2 arg_cong [OF s, of bookings] g1 g2 unfolding n unfolding e1 e2
    by - (intro conjI; assumption)
qed


section \<open>List\<close>

lemma scan_rows_acc:
  "scan_rows rs out = out @ map (the \<circ> scan_row) (filter (\<lambda>r. scan_row r \<noteq> None) rs)"
  by (induction rs arbitrary: out) (auto split: option.split)

text \<open>
  C10: when the query succeeds, List answers 200 with a JSON array that holds, in the
  store's order, the encoding of each row that scans and nothing for a row that does not;
  with no rows it is the empty array, and it is never \<open>null\<close>. The store is left as it
  was.
\<close>

theorem list_is_array_of_scanned_rows:
  "listBookings L True st =
     \<lparr>reply = \<lparr>status = 200,
               body = Json (JArr (map (encode_Booking L \<circ> the \<circ> scan_row)
                                   (filter (\<lambda>r. scan_row r \<noteq> None) (bookings st))))\<rparr>,
      after = st, spawned = None\<rparr>
   \<and> body (reply (listBookings L True (st\<lparr>bookings := []\<rparr>))) = Json (JArr [])
   \<and> body (reply (listBookings L True st)) \<noteq> Json JNull"
  by (simp add: listBookings_def scan_rows_acc)

theorem list_is_array_of_scanned_rows_witness:
  "body (reply (listBookings text_times True
      ((empty_store :: string store)\<lparr>bookings :=
         [\<lparr>row_id = 1, row_restaurant_id = Some 1, row_user = None,
           row_people = Some 2, row_when_ts = Some ''2025-11-10T19:00:00Z''\<rparr>,
          \<lparr>row_id = 2, row_restaurant_id = Some 1, row_user = Some ''bob'',
           row_people = Some 4, row_when_ts = Some ''2025-11-11T19:00:00Z''\<rparr>]\<rparr>))) =
   Json (JArr [JObj [(''id'', JNum 2), (''restaurant_id'', JNum 1), (''user'', JStr ''bob''),
                     (''people'', JNum 4), (''when'', JStr ''2025-11-11T19:00:00Z'')]])"
  using list_is_array_of_scanned_rows [of text_times
      "(empty_store :: string store)\<lparr>bookings :=
         [\<lparr>row_id = 1, row_restaurant_id = Some 1, row_user = None,
           row_people = Some 2, row_when_ts = Some ''2025-11-10T19:00:00Z''\<rparr>,
          \<lparr>row_id = 2, row_restaurant_id = Some 1, row_user = Some ''bob'',
           row_people = Some 4, row_when_ts = Some ''2025-11-11T19:00:00Z''\<rparr>]\<rparr>"]
  by (simp add: scan_row_def encode_Booking_def text_times_def empty_store_def)


section \<open>Lemmas on the projector\<close>

lemma unmarshal_deleted_event:
  "unmarshal_map (Some (deleted_event ident)) =
     Some [(''data'', JObj [(''id'', JStr ident)]), (''type'', JStr ''restaurant.deleted'')]"
  by (simp add: deleted_event_def go_map_def)

lemma unmarshal_deleted_event_num:
  "unmarshal_map (Some (deleted_event_num k)) =
     Some [(''data'', JObj [(''id'', JNum k)]), (''type'', JStr ''restaurant.deleted'')]"
  by (simp add: deleted_event_num_def go_map_def)

lemma unmarshal_created_event:
  "unmarshal_map (Some (created_event i n c s)) =
     Some [(''data'', JObj [(''id'', JNum i), (''name'', JStr n), (''city'', JStr c),
                            (''seats'', JNum s)]),
           (''type'', JStr ''restaurant.created'')]"
  by (simp add: created_event_def go_map_def)

text \<open>An id that arrives as a JSON string does not decode: the field stays 0.\<close>

lemma decode_id_string: "decode_id big (JObj [(''id'', JStr ident)]) = 0"
  by (simp add: go_map_def id_member_def ascii_lower_def)

lemma decode_id_number:
  "\<bar>k\<bar> \<le> 2 ^ 53 \<Longrightarrow> decode_id big (JObj [(''id'', JNum k)]) = k"
  by (simp add: go_map_def id_member_def ascii_lower_def via_float64_def)

lemma decode_restaurant_created:
  "\<bar>i\<bar> \<le> 2 ^ 53 \<Longrightarrow> \<bar>s\<bar> \<le> 2 ^ 53 \<Longrightarrow>
   decode_restaurant big (JObj [(''id'', JNum i), (''name'', JStr n), (''city'', JStr c),
                            (''seats'', JNum s)]) =
     \<lparr>r_ID = i, r_Name = n, r_City = c, r_Seats = s\<rparr>"
  by (simp add: go_map_def restaurant_member_def ascii_lower_def via_float64_def
      zero_restaurant_def)

text \<open>
  The deletion event as the restaurant service writes it makes the projector delete
  row 0, whatever restaurant was deleted.
\<close>

lemma project_deleted_event:
  "project big st (receive (deleted_event ident) t) = exec_delete True 0 st"
  by (simp add: project_def receive_def unmarshal_deleted_event ev_type_def ev_data_def
      decode_id_string del: decode_id.simps)

lemma project_deleted_event_num:
  "\<bar>k\<bar> \<le> 2 ^ 53 \<Longrightarrow>
   project big st (receive (deleted_event_num k) t) = exec_delete True k st"
  by (simp add: project_def receive_def unmarshal_deleted_event_num ev_type_def ev_data_def
      decode_id_number del: decode_id.simps)

lemma project_created_event:
  "\<bar>i\<bar> \<le> 2 ^ 53 \<Longrightarrow> \<bar>s\<bar> \<le> 2 ^ 53 \<Longrightarrow>
   project big st (receive (created_event i n c s) t) =
     exec_replace True t \<lparr>r_ID = i, r_Name = n, r_City = c, r_Seats = s\<rparr> st"
  by (simp add: project_def receive_def unmarshal_created_event ev_type_def ev_data_def
      decode_restaurant_created del: decode_restaurant.simps)

lemma consume_append:
  "consumeRestaurantEvents big st (us @ vs) =
   consumeRestaurantEvents big (consumeRestaurantEvents big st us) vs"
  by (induction us arbitrary: st) simp_all

lemma consume_keeps_entry:
  assumes "\<forall>u \<in> set us. \<forall>s. restaurants_cache (project big s u) k = restaurants_cache s k"
  shows "restaurants_cache (consumeRestaurantEvents big st us) k = restaurants_cache st k"
  using assms by (induction us arbitrary: st) simp_all

text \<open>
  With the id as a JSON number the deletion removes the entry, and turns that do not
  touch the id, before, between or after, do not bring it back.
\<close>

lemma deletion_by_number_removes_entry:
  assumes "\<bar>k\<bar> \<le> 2 ^ 53"
    and "\<forall>u \<in> set vs. \<forall>s. restaurants_cache (project big s u) k = restaurants_cache s k"
  shows "restaurants_cache
           (consumeRestaurantEvents big st (us @ receive (deleted_event_num k) t # vs)) k = None"
proof -
  let ?s = "consumeRestaurantEvents big st us"
  have "restaurants_cache (project big ?s (receive (deleted_event_num k) t)) k = None"
    using assms(1) by (simp add: project_deleted_event_num exec_delete_def)
  then show ?thesis
    using assms(2) by (simp add: consume_append consume_keeps_entry)
qed

lemma project_frame:
  "bookings (project big st u) = bookings st \<and> next_id (project big st u) = next_id st"
  by (simp add: project_def exec_replace_def exec_delete_def
      split: reading.split option.split)

lemma consume_frame:
  "bookings (consumeRestaurantEvents big st us) = bookings st
   \<and> next_id (consumeRestaurantEvents big st us) = next_id st"
  by (induction us arbitrary: st) (simp_all add: project_frame)

lemma handler_frame:
  "restaurants_cache (after (handler W op t st)) = restaurants_cache st"
  by (cases op)
    (simp_all add: createBooking_def getBooking_def listBookings_def insert_booking_def
      split: option.split)

lemma api_frame:
  "api W st h op = Answered x \<Longrightarrow> restaurants_cache (after x) = restaurants_cache st"
  by (auto simp: api_def jwtAuthMiddleware_def unauthorized_def Let_def handler_frame
      split: if_splits option.splits parse_result.splits prod.splits)


section \<open>Created, created, deleted\<close>

text \<open>
  C5: after created(id=5, name="A"), created(id=5, name="B"), deleted(id=5) the cache is
  to hold no entry for id 5, also when the deletion envelope is the one the restaurant
  service produces. The code breaks this: \<open>deleteRestaurant\<close> writes the id as a JSON
  string, the projector decodes it into an \<open>int64\<close>, the decoding fails and leaves 0, and
  the projector deletes row 0. The entry for id 5 stays, with the name "B".
\<close>

theorem deletion_as_produced_keeps_entry:
  "snd (deleteRestaurant True ''5'') = Some (deleted_event ''5'')
   \<and> restaurants_cache
       (consumeRestaurantEvents (\<lambda>n. None) (empty_store :: nat store)
          [receive (created_event 5 ''A'' ''Cluj'' 10) 1,
           receive (created_event 5 ''B'' ''Cluj'' 10) 2,
           receive (deleted_event ''5'') 3]) 5 =
     Some \<lparr>name = ''B'', city = ''Cluj'', seats = 10, last_seen = 2\<rparr>"
  by (simp add: deleteRestaurant_def project_deleted_event project_created_event
      exec_replace_def exec_delete_def empty_store_def)


section \<open>Replaying a creation event\<close>

text \<open>
  C6, as stated: applying a creation event twice in succession leaves the cache as
  applying it once does. The statement writes \<open>last_seen = NOW()\<close>, so the second
  application, made at a later time of the store, changes the row.
\<close>

theorem replay_changes_last_seen_counterexample:
  "project (\<lambda>n. None)
     (project (\<lambda>n. None) (empty_store :: nat store)
        (receive (created_event 5 ''A'' ''Cluj'' 10) 1))
     (receive (created_event 5 ''A'' ''Cluj'' 10) 2)
   \<noteq> project (\<lambda>n. None) (empty_store :: nat store)
        (receive (created_event 5 ''A'' ''Cluj'' 10) 1)"
proof
  assume "project (\<lambda>n. None)
     (project (\<lambda>n. None) (empty_store :: nat store)
        (receive (created_event 5 ''A'' ''Cluj'' 10) 1))
     (receive (created_event 5 ''A'' ''Cluj'' 10) 2)
   = project (\<lambda>n. None) (empty_store :: nat store)
        (receive (created_event 5 ''A'' ''Cluj'' 10) 1)"
  then have "restaurants_cache (project (\<lambda>n. None)
     (project (\<lambda>n. None) (empty_store :: nat store)
        (receive (created_event 5 ''A'' ''Cluj'' 10) 1))
     (receive (created_event 5 ''A'' ''Cluj'' 10) 2)) 5
   = restaurants_cache (project (\<lambda>n. None) (empty_store :: nat store)
        (receive (created_event 5 ''A'' ''Cluj'' 10) 1)) 5"
    by simp
  then show False
    by (simp add: project_created_event exec_replace_def empty_store_def)
qed

text \<open>
  C6, amended: applying an event a second time leaves the cache as one application made
  at the time of the second does; for a creation event the row has the id, name, city
  and seats of a single application and the \<open>last_seen\<close> of the latest one.
\<close>

theorem replay_is_last_apply:
  "project big (project big st (receive e t1)) (receive e t2) = project big st (receive e t2)"
  by (simp add: project_def receive_def exec_replace_def exec_delete_def
      split: option.split)

theorem replay_is_last_apply_witness:
  "restaurants_cache (project (\<lambda>n. None)
     (project (\<lambda>n. None) (empty_store :: nat store)
        (receive (created_event 5 ''A'' ''Cluj'' 10) 1))
     (receive (created_event 5 ''A'' ''Cluj'' 10) 2)) 5
   = Some \<lparr>name = ''A'', city = ''Cluj'', seats = 10, last_seen = 2\<rparr>"
  using replay_is_last_apply [of "\<lambda>n. None" "empty_store :: nat store"
      "created_event 5 ''A'' ''Cluj'' 10" 1 2]
  by (simp add: project_created_event exec_replace_def empty_store_def)


section \<open>Deleting an absent entry\<close>

text \<open>
  Where the projector reads the id \<open>k\<close> from the deletion event, as it does when the id
  is a JSON number of magnitude up to \<open>2 ^ 53\<close>, and the cache has no entry for \<open>k\<close>, the
  store stays as it was.
\<close>

lemma delete_of_decoded_absent_id:
  assumes "unmarshal_map v = Some ev" and "ev_type ev = ''restaurant.deleted''"
    and "decode_id big (ev_data ev) = k" and "restaurants_cache st k = None"
  shows "project big st \<lparr>reading = Message v, exec_ok = ok, now = t\<rparr> = st"
proof -
  have "(restaurants_cache st)(k := None) = restaurants_cache st"
    using assms(4) by (simp add: fun_upd_idem)
  then show ?thesis
    using assms(1,2,3) by (simp add: project_def exec_delete_def)
qed

lemma delete_by_number_of_absent_id:
  assumes "\<bar>k\<bar> \<le> 2 ^ 53" and "restaurants_cache st k = None"
  shows "project big st (receive (deleted_event_num k) t) = st"
proof -
  have "(restaurants_cache st)(k := None) = restaurants_cache st"
    using assms(2) by (simp add: fun_upd_idem)
  then show ?thesis
    using assms(1) by (simp add: project_deleted_event_num exec_delete_def)
qed

text \<open>
  C7: a deletion event for an id \<open>k\<close> with no cache entry is to leave the cache unchanged
  and produce no error. The code breaks this for the deletion events the restaurant
  service writes: the id goes out as a JSON string, the projector reads 0 from it, and
  the statement deletes row 0. With a cache that holds row 0 and no row 7, the event for
  restaurant 7 removes row 0. No error is produced.
\<close>

theorem deletion_as_produced_removes_row_zero:
  "snd (deleteRestaurant True ''7'') = Some (deleted_event ''7'')
   \<and> restaurants_cache
        ((empty_store :: nat store)\<lparr>restaurants_cache :=
            [0 \<mapsto> \<lparr>name = ''Z'', city = ''Cluj'', seats = 4, last_seen = 1\<rparr>]\<rparr>) 7 = None
   \<and> restaurants_cache
        ((empty_store :: nat store)\<lparr>restaurants_cache :=
            [0 \<mapsto> \<lparr>name = ''Z'', city = ''Cluj'', seats = 4, last_seen = 1\<rparr>]\<rparr>) 0 =
       Some \<lparr>name = ''Z'', city = ''Cluj'', seats = 4, last_seen = 1\<rparr>
   \<and> restaurants_cache
        (project (\<lambda>n. None)
           ((empty_store :: nat store)\<lparr>restaurants_cache :=
               [0 \<mapsto> \<lparr>name = ''Z'', city = ''Cluj'', seats = 4, last_seen = 1\<rparr>]\<rparr>)
           (receive (deleted_event ''7'') 2)) 0 = None"
  by (simp add: deleteRestaurant_def project_deleted_event exec_delete_def empty_store_def)


section \<open>Records the projector skips\<close>

text \<open>
  C8: a record whose envelope does not decode, and a decoded envelope whose type is
  neither restaurant.created nor restaurant.deleted, change nothing in the store; the
  loop has no error to raise and goes on with the next record from the same state.
\<close>

theorem undecodable_or_unknown_is_skipped:
  assumes "unmarshal_map v = None
      \<or> (\<exists>ev. unmarshal_map v = Some ev \<and> ev_type ev \<noteq> ''restaurant.created''
               \<and> ev_type ev \<noteq> ''restaurant.deleted'')"
  shows "project big st \<lparr>reading = Message v, exec_ok = ok, now = t\<rparr> = st
       \<and> consumeRestaurantEvents big st (\<lparr>reading = Message v, exec_ok = ok, now = t\<rparr> # us) =
         consumeRestaurantEvents big st us"
proof -
  have "project big st \<lparr>reading = Message v, exec_ok = ok, now = t\<rparr> = st"
    using assms by (auto simp: project_def)
  then show ?thesis by simp
qed

theorem undecodable_or_unknown_is_skipped_witness:
  "consumeRestaurantEvents (\<lambda>n. None) (empty_store :: nat store)
      [\<lparr>reading = Message None, exec_ok = True, now = 1\<rparr>,
       \<lparr>reading = Message (Some (JArr [])), exec_ok = True, now = 2\<rparr>,
       \<lparr>reading = Message (Some (JObj [(''type'', JStr ''restaurant.updated''),
                                         (''data'', JObj [(''id'', JNum 5)])])),
        exec_ok = True, now = 3\<rparr>] = empty_store"
proof -
  have a: "unmarshal_map None = None
      \<or> (\<exists>ev. unmarshal_map None = Some ev \<and> ev_type ev \<noteq> ''restaurant.created''
               \<and> ev_type ev \<noteq> ''restaurant.deleted'')" by simp
  have b: "unmarshal_map (Some (JArr [])) = None
      \<or> (\<exists>ev. unmarshal_map (Some (JArr [])) = Some ev
               \<and> ev_type ev \<noteq> ''restaurant.created''
               \<and> ev_type ev \<noteq> ''restaurant.deleted'')" by simp
  let ?v = "Some (JObj [(''type'', JStr ''restaurant.updated''),
                                         (''data'', JObj [(''id'', JNum 5)])])"
  have c: "unmarshal_map ?v = None
      \<or> (\<exists>ev. unmarshal_map ?v = Some ev \<and> ev_type ev \<noteq> ''restaurant.created''
               \<and> ev_type ev \<noteq> ''restaurant.deleted'')"
    by (simp add: go_map_def ev_type_def)
  show ?thesis
    using undecodable_or_unknown_is_skipped [OF a, of "\<lambda>n. None"
        "empty_store :: nat store" True 1
        "[\<lparr>reading = Message (Some (JArr [])), exec_ok = True, now = 2\<rparr>,
          \<lparr>reading = Message ?v, exec_ok = True, now = 3\<rparr>]"]
      undecodable_or_unknown_is_skipped [OF b, of "\<lambda>n. None"
        "empty_store :: nat store" True 2
        "[\<lparr>reading = Message ?v, exec_ok = True, now = 3\<rparr>]"]
      undecodable_or_unknown_is_skipped [OF c, of "\<lambda>n. None"
        "empty_store :: nat store" True 3 "[]"]
    by simp
qed


section \<open>Who writes which table\<close>

text \<open>
  C9: a turn of the projector, and any run of turns, leaves table \<open>bookings\<close> as it was;
  each operation of the Booking API, with or without the middleware in front of it,
  leaves table \<open>restaurants_cache\<close> as it was.
\<close>

theorem tables_are_framed:
  "bookings (project big st u) = bookings st
   \<and> bookings (consumeRestaurantEvents big st us) = bookings st
   \<and> restaurants_cache (after (handler W op t st)) = restaurants_cache st
   \<and> (case api W st h op of
        Dropped \<Rightarrow> True
      | Answered x \<Rightarrow> restaurants_cache (after x) = restaurants_cache st)"
  by (simp add: project_frame consume_frame handler_frame api_frame split: served.split)

theorem tables_are_framed_witness:
  "bookings (project (\<lambda>n. None) (empty_store :: string store)
      (receive (created_event 5 ''A'' ''Cluj'' 10) ''t'')) = []
   \<and> restaurants_cache (after (createBooking text_times True Delivers
        (empty_store :: string store)
        (Some (create_request 1 ''alice'' 2 ''2025-11-10T19:00:00Z'')))) 5 = None"
  using tables_are_framed [of "\<lambda>n. None" "empty_store :: string store"
      "receive (created_event 5 ''A'' ''Cluj'' 10) ''t''" "[]"
      "demo_world \<lparr>alg = ''HS256'', signing_input = [], signature = [], exp = Absent,
                   nbf = Absent\<rparr>"
      "Create (Some (create_request 1 ''alice'' 2 ''2025-11-10T19:00:00Z''))"
      "\<lparr>alg = ''HS256'', signing_input = [], signature = [], exp = Absent, nbf = Absent\<rparr>"
      "[]"]
  by (simp add: empty_store_def demo_world_def)

end
